theory Spec2Isabelle
  imports Main
begin

section \<open>The BLE link: framing, handshake and reconnection (my\_wearable/ble.py)\<close>

subsection \<open>The serial port as a script of observations\<close>

text \<open>
  The class \<open>BLE\<close> talks to a serial port and to the wall clock. Both are outside the
  program, so the model is given, in advance, everything the program will observe:
  \<^item> \<open>polls\<close>: what the port shows each time the driver looks at it, either nothing
    waiting (\<open>Quiet\<close>) or one waiting byte (\<open>Byte b\<close>); once the list is used up
    the port stays quiet;
  \<^item> \<open>clock\<close>: the outcome of each evaluation of \<open>time() - t1 < timeout\<close>; once the
    list is used up the deadline has passed.
  Bytes thrown away by \<open>flushInput\<close> are never observed, so they are not part of
  \<open>polls\<close>. Commands written to the port are recorded in \<open>written\<close>, oldest first.
  Console output and the settle pauses (\<open>sleep\<close>) change nothing the program can
  observe and are left out, and the port is taken to be open (\<open>connect\<close> reopens a
  closed one before anything else).
\<close>

datatype poll = Quiet | Byte char

record ble =
  peripheral_mac :: "string option"
  polls :: "poll list"
  clock :: "bool list"
  written :: "string list"

text \<open>The exceptions the two classes can raise.\<close>

datatype error =
    ConnectionFailed   \<comment> \<open>\<open>IOError("Exceed max number of attemps establishing connection")\<close>\<close>
  | ReconnectFailed    \<comment> \<open>\<open>IOError("Can't connect to Peripheral")\<close>\<close>
  | TypeError          \<comment> \<open>\<open>"AT+CON" + None\<close>\<close>
  | AssertionError     \<comment> \<open>\<open>assert len(eol) == 1\<close>\<close>
  | ValueError         \<comment> \<open>\<open>int(s)\<close> on a string that is not an integer literal\<close>
  | IndexError         \<comment> \<open>a list index out of range\<close>
  | FileNotFoundError  \<comment> \<open>\<open>open(filename, 'r')\<close> on a missing file\<close>

text \<open>
  A call either does not come back within the allowed nesting depth (\<open>None\<close>), or it
  raises (\<open>Inl\<close>) or returns (\<open>Inr\<close>), in both cases leaving a port state behind.
\<close>

type_synonym 'a result = "((error + 'a) \<times> ble) option"

abbreviation NL :: char where "NL \<equiv> CHR 0x0A"

text \<open>\<open>sub in s\<close> on Python strings.\<close>

fun is_in :: "string \<Rightarrow> string \<Rightarrow> bool" where
  "is_in sub [] = (sub = [])"
| "is_in sub (c # cs) = (take (length sub) (c # cs) = sub \<or> is_in sub cs)"

text \<open>
  \<open>self._ser.read(1).decode('utf-8')\<close> on one byte: a byte below 128 is that
  character, any other single byte is not valid UTF-8 and \<open>read\<close> answers \<open>''\<close>.
\<close>

definition decode :: "char \<Rightarrow> string" where
  "decode b = (if (of_char b :: nat) < 128 then [b] else [])"

definition in_waiting :: "poll list \<Rightarrow> bool" where
  "in_waiting ps = (case ps of Byte b # ps' \<Rightarrow> True | _ \<Rightarrow> False)"

definition read :: "poll list \<Rightarrow> string \<times> poll list" where
  "read ps =
     (if in_waiting ps then (case ps of Byte b # ps' \<Rightarrow> (decode b, ps') | _ \<Rightarrow> ([], ps))
      else ([], tl ps))"

definition write_ser :: "string \<Rightarrow> ble \<Rightarrow> ble" where
  "write_ser msg w = w\<lparr>written := written w @ [msg]\<rparr>"

text \<open>
  \<open>flush\<close> empties the port's buffers. What it discards was never seen by the driver,
  and what the driver sees afterwards is what \<open>polls\<close> says.
\<close>

definition flush :: "ble \<Rightarrow> ble" where
  "flush w = w"

subsection \<open>The two character loops\<close>

text \<open>
  The loop of \<open>read_line\<close>: \<open>while (c != eol) and (time() - t1 < timeout): msg += c;
  c = self.read()\<close>. The clock is consulted only when \<open>c\<close> is not the delimiter.
\<close>

fun read_line_loop ::
  "string \<Rightarrow> string \<Rightarrow> string \<Rightarrow> poll list \<Rightarrow> bool list \<Rightarrow> string \<times> poll list \<times> bool list" where
  "read_line_loop eol msg c ps ts =
     (if c \<noteq> eol then
        (case ts of
           [] \<Rightarrow> (msg, ps, [])
         | t # ts' \<Rightarrow>
             if t then (case read ps of (c', ps') \<Rightarrow> read_line_loop eol (msg @ c) c' ps' ts')
             else (msg, ps, ts'))
      else (msg, ps, ts))"

declare read_line_loop.simps [simp del]

definition read_line_chars ::
  "string \<Rightarrow> poll list \<Rightarrow> bool list \<Rightarrow> string \<times> poll list \<times> bool list" where
  "read_line_chars eol ps ts = (case read ps of (c, ps') \<Rightarrow> read_line_loop eol [] c ps' ts)"

text \<open>The loop of \<open>read_lines\<close>: \<open>while self._ser.in_waiting: msg += self.read()\<close>.\<close>

function read_lines_loop :: "string \<Rightarrow> poll list \<Rightarrow> string \<times> poll list" where
  "read_lines_loop msg ps =
     (if in_waiting ps then (case read ps of (c, ps') \<Rightarrow> read_lines_loop (msg @ c) ps')
      else (msg, tl ps))"
  by pat_completeness auto
termination
  by (relation "measure (\<lambda>(msg, ps). length ps)")
     (auto simp: read_def in_waiting_def split: list.splits poll.splits)

declare read_lines_loop.simps [simp del]

subsection \<open>Handshake and reconnection\<close>

text \<open>
  \<open>connect\<close>, \<open>read_line\<close>, \<open>check_connection\<close> and \<open>read_lines\<close> call each other:
  every framed message is checked for the link-lost marker, and a lost link re-enters
  \<open>connect\<close>. The first argument bounds how deeply \<open>check_connection\<close> may re-enter
  \<open>connect\<close>; the loops themselves run on their own counters.
\<close>

function (sequential) connect :: "nat \<Rightarrow> string option \<Rightarrow> int \<Rightarrow> ble \<Rightarrow> unit result"
and connect_loop :: "nat \<Rightarrow> int \<Rightarrow> bool \<Rightarrow> bool \<Rightarrow> int \<Rightarrow> ble \<Rightarrow> (bool \<times> int) result"
and check_connection :: "nat \<Rightarrow> string \<Rightarrow> int \<Rightarrow> ble \<Rightarrow> unit result"
and check_connection_loop :: "nat \<Rightarrow> int \<Rightarrow> string \<Rightarrow> int \<Rightarrow> ble \<Rightarrow> int result"
and read_line :: "nat \<Rightarrow> string \<Rightarrow> ble \<Rightarrow> string result"
and read_lines :: "nat \<Rightarrow> ble \<Rightarrow> string result"
where
  "connect d mac max_tries w =
     (case connect_loop d max_tries False False 0
             (flush (write_ser ''AT'' (w\<lparr>peripheral_mac := mac\<rparr>))) of
        None \<Rightarrow> None
      | Some (Inl e, w') \<Rightarrow> Some (Inl e, w')
      | Some (Inr (confirmed, tries), w') \<Rightarrow>
          if \<not> confirmed then Some (Inl ConnectionFailed, w') else Some (Inr (), w'))"
| "connect_loop d max_tries connected confirmed tries w =
     (if \<not> confirmed \<and> tries < max_tries then
        (case read_line d [NL] w of
           None \<Rightarrow> None
         | Some (Inl e, w') \<Rightarrow> Some (Inl e, w')
         | Some (Inr response, w') \<Rightarrow>
             (let connected' = (if is_in ''OK+CONNAOK+CONN'' response then True else connected);
                  confirmed' = (if is_in ''#'' response then True else confirmed)
              in if \<not> connected' then
                   (case peripheral_mac w' of
                      None \<Rightarrow> Some (Inl TypeError, w')
                    | Some a \<Rightarrow>
                        connect_loop d max_tries connected' confirmed' (tries + 1)
                          (write_ser (''AT+CON'' @ a) w'))
                 else if \<not> confirmed' then
                   connect_loop d max_tries connected' confirmed' (tries + 1)
                     (write_ser ''AT+NAME?'' w')
                 else connect_loop d max_tries connected' confirmed' (tries + 1) w'))
      else Some (Inr (confirmed, tries), w))"
| "check_connection d msg max_tries w =
     (case check_connection_loop d max_tries msg 0 w of
        None \<Rightarrow> None
      | Some (Inl e, w') \<Rightarrow> Some (Inl e, w')
      | Some (Inr tries, w') \<Rightarrow>
          if tries \<ge> max_tries then Some (Inl ReconnectFailed, w') else Some (Inr (), w'))"
| "check_connection_loop d max_tries msg tries w =
     (if is_in ''OK+LOST'' msg \<and> tries < max_tries then
        (case d of
           0 \<Rightarrow> None
         | Suc d' \<Rightarrow>
             (case connect d' (peripheral_mac w) 20 w of
                None \<Rightarrow> None
              | Some (Inl e, w') \<Rightarrow> Some (Inl e, w')
              | Some (Inr u, w') \<Rightarrow>
                  (case read_lines d' w' of
                     None \<Rightarrow> None
                   | Some (Inl e, w'') \<Rightarrow> Some (Inl e, w'')
                   | Some (Inr msg', w'') \<Rightarrow>
                       check_connection_loop d max_tries msg' (tries + 1) w'')))
      else Some (Inr tries, w))"
| "read_line d eol w =
     (if length eol \<noteq> 1 then Some (Inl AssertionError, w)
      else
        (case read_line_chars eol (polls w) (clock w) of
           (msg, ps, ts) \<Rightarrow>
             (case check_connection d msg 10 (w\<lparr>polls := ps, clock := ts\<rparr>) of
                None \<Rightarrow> None
              | Some (Inl e, w') \<Rightarrow> Some (Inl e, w')
              | Some (Inr u, w') \<Rightarrow> Some (Inr msg, w'))))"
| "read_lines d w =
     (case read_lines_loop [] (polls w) of
        (msg, ps) \<Rightarrow>
          (case check_connection d msg 10 (w\<lparr>polls := ps\<rparr>) of
             None \<Rightarrow> None
           | Some (Inl e, w') \<Rightarrow> Some (Inl e, w')
           | Some (Inr u, w') \<Rightarrow> Some (Inr msg, w')))"
  by pat_completeness auto
termination
  by (relation "measures
        [\<lambda>x. case x of
            Inl (Inl (d, mac, max_tries, w)) \<Rightarrow> d
          | Inl (Inr (Inl (d, max_tries, connected, confirmed, tries, w))) \<Rightarrow> d
          | Inl (Inr (Inr (d, msg, max_tries, w))) \<Rightarrow> d
          | Inr (Inl (d, max_tries, msg, tries, w)) \<Rightarrow> d
          | Inr (Inr (Inl (d, eol, w))) \<Rightarrow> d
          | Inr (Inr (Inr (d, w))) \<Rightarrow> d,
         \<lambda>x. case x of
            Inl (Inl (d, mac, max_tries, w)) \<Rightarrow> 5
          | Inl (Inr (Inl (d, max_tries, connected, confirmed, tries, w))) \<Rightarrow> 4
          | Inl (Inr (Inr (d, msg, max_tries, w))) \<Rightarrow> 2
          | Inr (Inl (d, max_tries, msg, tries, w)) \<Rightarrow> 1
          | Inr (Inr (Inl (d, eol, w))) \<Rightarrow> 3
          | Inr (Inr (Inr (d, w))) \<Rightarrow> 3,
         \<lambda>x. case x of
            Inl (Inr (Inl (d, max_tries, connected, confirmed, tries, w))) \<Rightarrow> nat (max_tries - tries)
          | Inr (Inl (d, max_tries, msg, tries, w)) \<Rightarrow> nat (max_tries - tries)
          | _ \<Rightarrow> 0]")
     auto

declare connect.simps [simp del] connect_loop.simps [simp del]
  check_connection.simps [simp del] check_connection_loop.simps [simp del]
  read_line.simps [simp del] read_lines.simps [simp del]

subsection \<open>Reading the script: frames and what the driver hears\<close>




text \<open>
  The messages that \<open>n\<close> successive framings with the default delimiter cut out of a
  script, and the script that is left after them. Writing to the port does not change
  the script, so these are the messages \<open>connect\<close> reads as long as no reconnection
  takes place.
\<close>

fun frames :: "nat \<Rightarrow> poll list \<Rightarrow> bool list \<Rightarrow> string list" where
  "frames 0 ps ts = []"
| "frames (Suc n) ps ts =
     (case read_line_chars [NL] ps ts of (msg, ps', ts') \<Rightarrow> msg # frames n ps' ts')"

fun after_frames :: "nat \<Rightarrow> poll list \<Rightarrow> bool list \<Rightarrow> poll list \<times> bool list" where
  "after_frames 0 ps ts = (ps, ts)"
| "after_frames (Suc n) ps ts =
     (case read_line_chars [NL] ps ts of (msg, ps', ts') \<Rightarrow> after_frames n ps' ts')"

text \<open>
  The position of the first message that carries the confirmation marker (the number of
  messages when none does).
\<close>

definition first_confirmed :: "string list \<Rightarrow> nat" where
  "first_confirmed fs = length (takeWhile (\<lambda>m. \<not> is_in ''#'' m) fs)"

text \<open>
  Example ports. \<open>scripted\<close>: an empty message, then the link-established marker,
  then the confirmation marker, then a sample. \<open>lost_first\<close>: one message that carries
  both the confirmation marker and the link-lost marker, then silence. \<open>streaming\<close>:
  a sample ended by \<open>;\<close>, with one look at the port that finds nothing.
  \<open>reconnecting\<close>: the peripheral answers the handshake at once, then silence.
  \<open>silent\<close>: nothing ever arrives.
\<close>

definition scripted :: ble where
  "scripted = \<lparr>peripheral_mac = None,
     polls = map Byte ([NL] @ ''OK+CONNAOK+CONN'' @ [NL] @ ''#'' @ [NL] @ ''12,34;''),
     clock = replicate 40 True, written = []\<rparr>"

definition lost_first :: ble where
  "lost_first = \<lparr>peripheral_mac = None,
     polls = map Byte (''#OK+LOST'' @ [NL]),
     clock = replicate 8 True, written = []\<rparr>"


definition reconnecting :: ble where
  "reconnecting = \<lparr>peripheral_mac = Some ''78DB2F141044'',
     polls = [Byte CHR ''#'', Byte NL], clock = [True], written = []\<rparr>"

definition silent :: ble where
  "silent = \<lparr>peripheral_mac = None, polls = [], clock = [], written = []\<rparr>"

section \<open>The pedometer's sample buffer (my\_wearable/pedometer.py)\<close>

subsection \<open>Python's string and integer primitives\<close>

text \<open>
  Characters are the code points below 256. \<open>isspace\<close> is Python's notion of white
  space on these, used by \<open>str.rstrip()\<close> and by \<open>int()\<close>.
\<close>

definition isspace :: "char \<Rightarrow> bool" where
  "isspace c = ((of_char c :: nat) \<in> {9, 10, 11, 12, 13, 28, 29, 30, 31, 32, 133, 160})"

definition isdigit :: "char \<Rightarrow> bool" where
  "isdigit c = (48 \<le> (of_char c :: nat) \<and> (of_char c :: nat) \<le> 57)"

definition digit_value :: "char \<Rightarrow> nat" where
  "digit_value c = of_char c - 48"

definition rstrip :: "string \<Rightarrow> string" where
  "rstrip s = rev (dropWhile isspace (rev s))"

definition strip :: "string \<Rightarrow> string" where
  "strip s = dropWhile isspace (rstrip s)"

text \<open>\<open>s.split(sep)\<close> with a one-character separator: never an empty list.\<close>

fun split :: "char \<Rightarrow> string \<Rightarrow> string list" where
  "split sep [] = [[]]"
| "split sep (c # cs) =
     (if c = sep then [] # split sep cs
      else (case split sep cs of [] \<Rightarrow> [[c]] | f # fs \<Rightarrow> (c # f) # fs))"

text \<open>
  \<open>int(s)\<close> in base ten: white space around the literal is ignored, one sign may come
  first, then digits, where single underscores may stand between two digits. (The limit
  that recent interpreters put on the number of digits is not modelled.)
\<close>

fun digits_value :: "nat \<Rightarrow> string \<Rightarrow> nat option" where
  "digits_value acc [] = Some acc"
| "digits_value acc (c # cs) =
     (if isdigit c then digits_value (10 * acc + digit_value c) cs
      else if c = CHR ''_'' then
        (case cs of
           [] \<Rightarrow> None
         | d # ds \<Rightarrow> if isdigit d then digits_value (10 * acc + digit_value d) ds else None)
      else None)"

definition digits :: "string \<Rightarrow> nat option" where
  "digits s = (case s of [] \<Rightarrow> None
               | c # cs \<Rightarrow> if isdigit c then digits_value (digit_value c) cs else None)"

definition py_int :: "string \<Rightarrow> int option" where
  "py_int s =
     (case strip s of
        [] \<Rightarrow> None
      | c # cs \<Rightarrow>
          if c = CHR ''-'' then map_option (\<lambda>n. - int n) (digits cs)
          else if c = CHR ''+'' then map_option int (digits cs)
          else map_option int (digits (c # cs)))"




subsection \<open>Objects, class attributes and the world around them\<close>

text \<open>
  The class body binds \<open>__time_buffer = []\<close> and \<open>__data_buffer = []\<close>: two list
  objects that belong to the class. \<open>__init__\<close> sets \<open>_maxlen\<close> and \<open>_file_flag\<close> on
  the instance and nothing else, so an instance has buffers of its own only after an
  assignment \<open>self.__time_buffer = ...\<close> (in \<open>reset\<close> and \<open>load_file\<close>); until then
  \<open>self.__time_buffer\<close> is the class's list, and \<open>.append\<close> changes that list in
  place. An instance attribute is \<open>None\<close> here while the instance does not have it.
  The same holds for \<open>__steps\<close>, whose class value \<open>0\<close> is never changed.

  The world holds what is shared by all instances: the two class lists, the console and
  the files.
\<close>

record world =
  cls_time_buffer :: "int list"
  cls_data_buffer :: "int list"
  console :: "string list"
  files :: "string \<rightharpoonup> string"

record pedometer =
  maxlen :: int
  file_flag :: bool
  time_buffer :: "int list option"
  data_buffer :: "int list option"
  steps :: "int option"

definition print :: "string \<Rightarrow> world \<Rightarrow> world" where
  "print s g = g\<lparr>console := console g @ [s]\<rparr>"

text \<open>Attribute lookup: the instance first, then the class.\<close>

definition get_time_buffer :: "world \<Rightarrow> pedometer \<Rightarrow> int list" where
  "get_time_buffer g self = (case time_buffer self of None \<Rightarrow> cls_time_buffer g | Some b \<Rightarrow> b)"

definition get_data_buffer :: "world \<Rightarrow> pedometer \<Rightarrow> int list" where
  "get_data_buffer g self = (case data_buffer self of None \<Rightarrow> cls_data_buffer g | Some b \<Rightarrow> b)"

definition get_steps :: "pedometer \<Rightarrow> int" where
  "get_steps self = (case steps self of None \<Rightarrow> 0 | Some n \<Rightarrow> n)"

text \<open>\<open>self.__time_buffer.append(t)\<close>: the list that the lookup finds is changed in place.\<close>

definition time_buffer_append :: "int \<Rightarrow> world \<times> pedometer \<Rightarrow> world \<times> pedometer" where
  "time_buffer_append t = (\<lambda>(g, self).
     (case time_buffer self of
        None \<Rightarrow> (g\<lparr>cls_time_buffer := cls_time_buffer g @ [t]\<rparr>, self)
      | Some b \<Rightarrow> (g, self\<lparr>time_buffer := Some (b @ [t])\<rparr>)))"

definition data_buffer_append :: "int \<Rightarrow> world \<times> pedometer \<Rightarrow> world \<times> pedometer" where
  "data_buffer_append v = (\<lambda>(g, self).
     (case data_buffer self of
        None \<Rightarrow> (g\<lparr>cls_data_buffer := cls_data_buffer g @ [v]\<rparr>, self)
      | Some b \<Rightarrow> (g, self\<lparr>data_buffer := Some (b @ [v])\<rparr>)))"

subsection \<open>The methods\<close>

definition init :: "int \<Rightarrow> bool \<Rightarrow> pedometer" where
  "init maxlen' file_flag' =
     \<lparr>maxlen = maxlen', file_flag = file_flag',
      time_buffer = None, data_buffer = None, steps = None\<rparr>"

text \<open>
  In \<open>reset\<close>, the line \<open>__steps = 0\<close> binds a local name; it does not touch the
  object.
\<close>

definition reset :: "pedometer \<Rightarrow> pedometer" where
  "reset self = self\<lparr>time_buffer := Some [], data_buffer := Some []\<rparr>"

text \<open>
  \<open>append\<close>: the two \<open>.append\<close> calls stand in one \<open>try\<close> block, and the bare
  \<open>except\<close> catches whatever the second one raises after the first has been done.
\<close>

definition invalid_data :: "string \<Rightarrow> world \<times> pedometer \<Rightarrow> world \<times> pedometer" where
  "invalid_data msg_str = (\<lambda>(g, self). (print msg_str (print ''Received invalid data'' g), self))"

definition append_msg :: "string \<Rightarrow> world \<times> pedometer \<Rightarrow> world \<times> pedometer" where
  "append_msg msg_str = (\<lambda>(g, self).
     if int (length (get_time_buffer g self)) = maxlen self
        \<or> int (length (get_data_buffer g self)) = maxlen self
     then (print ''The buffer is full'' g, self)
     else
       (case split CHR '','' msg_str of
          [] \<Rightarrow> invalid_data msg_str (g, self)
        | f0 # received \<Rightarrow>
            (case py_int f0 of
               None \<Rightarrow> invalid_data msg_str (g, self)
             | Some t \<Rightarrow>
                 (case received of
                    [] \<Rightarrow> invalid_data msg_str (time_buffer_append t (g, self))
                  | f1 # extra \<Rightarrow>
                      (case py_int f1 of
                         None \<Rightarrow> invalid_data msg_str (time_buffer_append t (g, self))
                       | Some v \<Rightarrow>
                           data_buffer_append v (time_buffer_append t (g, self)))))))"







subsection \<open>Lines, samples and example states\<close>




text \<open>
  The world right after the class body has run, and some files and instances for the
  examples below.
\<close>

definition fresh_world :: world where
  "fresh_world = \<lparr>cls_time_buffer = [], cls_data_buffer = [], console = [], files = Map.empty\<rparr>"




definition counted :: pedometer where
  "counted = \<lparr>maxlen = 3, file_flag = True,
     time_buffer = Some [0, 20, 40], data_buffer = Some [512, 530, 498], steps = Some 20\<rparr>"

section \<open>Properties of the link\<close>









lemma check_connection_clean:
  "\<not> is_in ''OK+LOST'' msg \<Longrightarrow> check_connection d msg 10 w = Some (Inr (), w)"
  by (simp add: check_connection.simps check_connection_loop.simps)

lemma read_line_clean:
  assumes "read_line_chars [e] (polls w) (clock w) = (msg, ps, ts)"
    and "\<not> is_in ''OK+LOST'' msg"
  shows "read_line d [e] w = Some (Inr msg, w\<lparr>polls := ps, clock := ts\<rparr>)"
  using assms by (simp add: read_line.simps check_connection_clean)

lemma connect_loop_done:
  "connect_loop d max_tries connected True tries w = Some (Inr (True, tries), w)"
  by (simp add: connect_loop.simps)

lemma connect_loop_frames:
  assumes "\<forall>m \<in> set (take (Suc (first_confirmed (frames n (polls w) (clock w))))
                            (frames n (polls w) (clock w))). \<not> is_in ''OK+LOST'' m"
    and "nat (max_tries - tries) = n"
    and "peripheral_mac w = Some a"
  shows "\<exists>w'. connect_loop d max_tries connected False tries w =
            Some (Inr (first_confirmed (frames n (polls w) (clock w)) < n,
                       tries + int (min (Suc (first_confirmed (frames n (polls w) (clock w)))) n)), w')
          \<and> (polls w', clock w') =
              after_frames (min (Suc (first_confirmed (frames n (polls w) (clock w)))) n)
                (polls w) (clock w)"
  using assms
proof (induction n arbitrary: tries w connected)
  case 0
  then show ?case by (simp add: connect_loop.simps first_confirmed_def)
next
  case (Suc n)
  obtain msg ps ts where fr: "read_line_chars [NL] (polls w) (clock w) = (msg, ps, ts)"
    by (cases "read_line_chars [NL] (polls w) (clock w)") auto
  from Suc.prems(1) fr have clean: "\<not> is_in ''OK+LOST'' msg"
    by simp
  let ?w1 = "w\<lparr>polls := ps, clock := ts\<rparr>"
  have rl: "read_line d [NL] w = Some (Inr msg, ?w1)"
    using fr clean by (rule read_line_clean)
  from Suc.prems have lt: "tries < max_tries" and n: "nat (max_tries - (tries + 1)) = n"
    by linarith+
  show ?case
  proof (cases "is_in ''#'' msg")
    case True
    then show ?thesis
      using rl lt fr Suc.prems(3)
      by (subst connect_loop.simps)
         (simp add: connect_loop_done write_ser_def first_confirmed_def)
  next
    case False
    with Suc.prems(1) fr
    have rest: "\<forall>m \<in> set (take (Suc (first_confirmed (frames n ps ts))) (frames n ps ts)).
                  \<not> is_in ''OK+LOST'' m"
      by (simp add: first_confirmed_def)
    have ih: "\<And>w2 c. polls w2 = ps \<Longrightarrow> clock w2 = ts \<Longrightarrow> peripheral_mac w2 = Some a \<Longrightarrow>
      \<exists>w'. connect_loop d max_tries c False (tries + 1) w2 =
            Some (Inr (first_confirmed (frames n ps ts) < n,
                       tries + 1 + int (min (Suc (first_confirmed (frames n ps ts))) n)), w')
          \<and> (polls w', clock w') =
              after_frames (min (Suc (first_confirmed (frames n ps ts))) n) ps ts"
      using Suc.IH [OF _ n] rest by metis
    show ?thesis
    proof (cases "is_in ''OK+CONNAOK+CONN'' msg \<or> connected")
      case True
      from ih [of "write_ser ''AT+NAME?'' ?w1" True] Suc.prems(3)
      show ?thesis
        using rl lt fr False True
        by (subst connect_loop.simps) (auto simp add: write_ser_def first_confirmed_def)
    next
      case nc: False
      from ih [of "write_ser (''AT+CON'' @ a) ?w1" False] Suc.prems(3)
      show ?thesis
        using rl lt fr False nc
        by (subst connect_loop.simps) (auto simp add: write_ser_def first_confirmed_def)
    qed
  qed
qed

text \<open>
  Claim C1, amended. Take the first \<open>max_tries\<close> messages of the script, and of these
  the ones up to and including the first that carries the confirmation marker (all of
  them when none does). If none of those carries the link-lost marker, then \<open>connect\<close>
  returns normally when one of the \<open>max_tries\<close> messages carries the confirmation
  marker, after reading exactly the messages up to and including the first such one, and
  raises \<open>ConnectionFailed\<close> otherwise, after reading exactly \<open>max_tries\<close> messages
  (none when \<open>max_tries\<close> is not positive). The loop counter \<open>tries\<close> and the script
  that is left both give the number of read cycles.
\<close>

theorem connect_first_confirmation:
  assumes "\<forall>m \<in> set (take (Suc (first_confirmed (frames (nat max_tries) (polls w) (clock w))))
                            (frames (nat max_tries) (polls w) (clock w))).
             \<not> is_in ''OK+LOST'' m"
  shows "\<exists>w'. connect d (Some a) max_tries w =
               Some (if first_confirmed (frames (nat max_tries) (polls w) (clock w)) < nat max_tries
                     then Inr () else Inl ConnectionFailed, w')
             \<and> connect_loop d max_tries False False 0
                   (flush (write_ser ''AT'' (w\<lparr>peripheral_mac := Some a\<rparr>))) =
               Some (Inr (first_confirmed (frames (nat max_tries) (polls w) (clock w)) < nat max_tries,
                          int (min (Suc (first_confirmed (frames (nat max_tries) (polls w) (clock w))))
                                   (nat max_tries))), w')
             \<and> (polls w', clock w') =
                 after_frames (min (Suc (first_confirmed (frames (nat max_tries) (polls w) (clock w))))
                                   (nat max_tries)) (polls w) (clock w)"
proof -
  let ?w0 = "flush (write_ser ''AT'' (w\<lparr>peripheral_mac := Some a\<rparr>))"
  have p: "polls ?w0 = polls w" "clock ?w0 = clock w" "peripheral_mac ?w0 = Some a"
    by (simp_all add: flush_def write_ser_def)
  from connect_loop_frames [of "nat max_tries" ?w0 max_tries 0 a d False] assms p
  obtain w' where
    loop: "connect_loop d max_tries False False 0 ?w0 =
       Some (Inr (first_confirmed (frames (nat max_tries) (polls w) (clock w)) < nat max_tries,
                  int (min (Suc (first_confirmed (frames (nat max_tries) (polls w) (clock w))))
                           (nat max_tries))), w')"
    and scr: "(polls w', clock w') =
       after_frames (min (Suc (first_confirmed (frames (nat max_tries) (polls w) (clock w))))
                         (nat max_tries)) (polls w) (clock w)"
    by auto
  have "connect d (Some a) max_tries w =
          Some (if first_confirmed (frames (nat max_tries) (polls w) (clock w)) < nat max_tries
                then Inr () else Inl ConnectionFailed, w')"
    by (simp add: connect.simps loop)
  with loop scr show ?thesis by blast
qed

theorem connect_first_confirmation_witness:
  "frames (nat 5) (polls scripted) (clock scripted) = [[], ''OK+CONNAOK+CONN'', ''#'', ''12,34;'', []]
   \<and> first_confirmed (frames (nat 5) (polls scripted) (clock scripted)) = 2
   \<and> map_option fst (connect 0 (Some ''78DB2F141044'') 5 scripted) = Some (Inr ())
   \<and> map_option fst (connect_loop 0 5 False False 0
          (flush (write_ser ''AT'' (scripted\<lparr>peripheral_mac := Some ''78DB2F141044''\<rparr>))))
       = Some (Inr (True, 3))
   \<and> frames (nat 3) (polls silent) (clock silent) = [[], [], []]
   \<and> map_option fst (connect 0 (Some ''78DB2F141044'') 3 silent) = Some (Inl ConnectionFailed)
   \<and> map_option fst (connect_loop 0 3 False False 0
          (flush (write_ser ''AT'' (silent\<lparr>peripheral_mac := Some ''78DB2F141044''\<rparr>))))
       = Some (Inr (False, 3))"
proof -
  have fr: "frames (nat 5) (polls scripted) (clock scripted) =
              [[], ''OK+CONNAOK+CONN'', ''#'', ''12,34;'', []]"
    by code_simp
  have k: "first_confirmed (frames (nat 5) (polls scripted) (clock scripted)) = 2"
    unfolding fr by (simp add: first_confirmed_def)
  have h: "\<forall>m \<in> set (take (Suc (first_confirmed (frames (nat 5) (polls scripted) (clock scripted))))
                            (frames (nat 5) (polls scripted) (clock scripted))).
             \<not> is_in ''OK+LOST'' m"
    unfolding k unfolding fr by simp
  have fr': "frames (nat 3) (polls silent) (clock silent) = [[], [], []]"
    by code_simp
  have k': "first_confirmed (frames (nat 3) (polls silent) (clock silent)) = 3"
    unfolding fr' by (simp add: first_confirmed_def)
  have h': "\<forall>m \<in> set (take (Suc (first_confirmed (frames (nat 3) (polls silent) (clock silent))))
                            (frames (nat 3) (polls silent) (clock silent))).
             \<not> is_in ''OK+LOST'' m"
    unfolding k' unfolding fr' by simp
  from connect_first_confirmation [OF h, of 0 "''78DB2F141044''"]
    connect_first_confirmation [OF h', of 0 "''78DB2F141044''"] fr k fr' k'
  show ?thesis by auto
qed

text \<open>
  Claim C1 as stated fails when a message carries the link-lost marker: \<open>read_line\<close>
  then re-enters \<open>connect\<close> before the caller sees the message. Here the first message
  carries the confirmation marker, and \<open>connect\<close> raises nevertheless, because the
  nested handshake finds nothing more on the port.
\<close>

theorem connect_lost_frame_counterexample:
  "is_in ''#'' (hd (frames 3 (polls lost_first) (clock lost_first)))
   \<and> map_option fst (connect 1 (Some ''78DB2F141044'') 3 lost_first) = Some (Inl ConnectionFailed)"
  by code_simp

text \<open>
  Claim C2. \<open>check_connection\<close> raises whenever the loop counter has reached
  \<open>max_tries\<close>, whether or not the marker is still there. With a budget of one attempt,
  the handshake succeeds and the backlog read afterwards is empty, yet
  \<open>ReconnectFailed\<close> is raised; with a budget of two, the same port lets the call return
  after that one attempt.
\<close>

theorem check_connection_last_attempt:
  "map_option fst (check_connection 1 ''OK+LOST'' 1 reconnecting) = Some (Inl ReconnectFailed)
   \<and> map_option fst (check_connection 1 ''OK+LOST'' 2 reconnecting) = Some (Inr ())"
  by code_simp

section \<open>Properties of the sample buffer\<close>

subsection \<open>append, reset and the shared class lists\<close>

text \<open>
  Claim C3. When the first field is an integer and the second is not, \<open>append\<close> has
  already put the time stamp into the time buffer when the second conversion raises:
  the time buffer grows, the data buffer does not.
\<close>

theorem append_half_sample:
  "get_time_buffer fresh_world (reset (init 500 True)) = []
   \<and> (case append_msg ''12,abc'' (fresh_world, reset (init 500 True)) of
        (g, self) \<Rightarrow> get_time_buffer g self = [12] \<and> get_data_buffer g self = []
          \<and> console g = [''Received invalid data'', ''12,abc''])"
  by code_simp

text \<open>
  Claim C4. \<open>reset\<close> empties both buffers and leaves the stored step count as it
  was.
\<close>

theorem reset_keeps_steps:
  "get_steps counted = 20 \<and> get_steps (reset counted) = 20
   \<and> time_buffer (reset counted) = Some [] \<and> data_buffer (reset counted) = Some []"
  by (simp add: counted_def reset_def get_steps_def)

text \<open>
  Claim C9. An instance that has not been reset or loaded has no buffers of its own: a
  sample appended through one such instance is seen through every other one.
\<close>

theorem append_reaches_other_instance:
  "get_time_buffer fresh_world (init 100 False) = []
   \<and> get_data_buffer fresh_world (init 100 False) = []
   \<and> (case append_msg ''1,2'' (fresh_world, init 500 True) of
        (g, self) \<Rightarrow> get_time_buffer g (init 100 False) = [1]
          \<and> get_data_buffer g (init 100 False) = [2])"
  by code_simp

subsection \<open>load\_file\<close>








subsection \<open>save\_file followed by load\_file\<close>

























end
